theory Spec2Isabelle
  imports Complex_Main
begin

section \<open>Simulated devices of the lightpath test suite\<close>

text \<open>
  The development follows \<^verbatim>\<open>lightpath/tests/conftest.py\<close>: the pseudo-status
  constants, the simulated in/out device \<^verbatim>\<open>Valve\<close> with its subclasses
  \<^verbatim>\<open>IPIMB\<close>, \<^verbatim>\<open>Stopper\<close> and \<^verbatim>\<open>Crystal\<close>, and the simulated
  \<^verbatim>\<open>MPS\<close>. Python objects become records, attribute assignment becomes record
  update, and every method takes the object it is called on and returns the object
  as the call leaves it.
\<close>

subsection \<open>Status\<close>

text \<open>
  \<^verbatim>\<open>class Status: inserted = 0; removed = 1; unknown = 2\<close>. The class only holds
  three integer constants; a device's \<^verbatim>\<open>status\<close> attribute is an integer.
\<close>

definition Status_inserted :: int where
  "Status_inserted = 0"

definition Status_removed :: int where
  "Status_removed = 1"

definition Status_unknown :: int where
  "Status_unknown = 2"

subsection \<open>Subscriptions of the device framework\<close>

text \<open>
  \<^verbatim>\<open>_run_subs(obj=..., sub_type=...)\<close> is inherited from the device framework: it
  calls every callback subscribed to the event type \<^verbatim>\<open>sub_type\<close>, in the order of
  subscription, handing it \<^verbatim>\<open>obj\<close>. A callback is known by an identifier; the
  registry of an object is the list of its subscriptions, each an event type with
  a callback. A delivery records which callback ran, for which event type, and the
  status that \<^verbatim>\<open>obj\<close> showed at that moment.
\<close>

type_synonym callback = nat

record delivery =
  cb :: callback
  sub_type :: string
  seen_status :: int

definition run_subs :: "(string \<times> callback) list \<Rightarrow> int \<Rightarrow> string \<Rightarrow> delivery list" where
  "run_subs registry obj_status ty =
     map (\<lambda>s. \<lparr>cb = snd s, sub_type = ty, seen_status = obj_status\<rparr>)
       (filter (\<lambda>s. fst s = ty) registry)"

text \<open>
  \<^verbatim>\<open>DeviceStatus(self, done=True, success=True)\<close>: the acknowledgment object of the
  framework, reduced to the two flags the constructor call sets.
\<close>

record DeviceStatus =
  st_done :: bool
  st_success :: bool

subsection \<open>MPS and Valve\<close>

text \<open>
  \<^verbatim>\<open>MPS.__init__(self, device)\<close> names the object \<^verbatim>\<open>'MPS'\<close>, keeps the device it
  was built for and sets \<^verbatim>\<open>bypassed = False\<close>. The only MPS a device ever holds
  is the one \<^verbatim>\<open>Valve.__init__\<close> builds with \<^verbatim>\<open>MPS(self)\<close>, so \<^verbatim>\<open>mps.device\<close>
  is the device holding the MPS: the record has no field for the back reference, and
  the MPS properties below take the device that \<^verbatim>\<open>self.device\<close> refers to.
\<close>

record MPS =
  mps_name :: string
  bypassed :: bool
  mps_subs :: "(string \<times> callback) list"

definition SUB_MPS_CH :: string where
  "SUB_MPS_CH = ''mps_state_changed''"

definition MPS_default_sub :: string where
  "MPS_default_sub = SUB_MPS_CH"

definition MPS_init :: MPS where
  "MPS_init = \<lparr>mps_name = ''MPS'', bypassed = False, mps_subs = []\<rparr>"

text \<open>
  A \<^verbatim>\<open>Valve\<close> instance. The class attributes \<^verbatim>\<open>_transmission\<close> and \<^verbatim>\<open>_veto\<close>
  are read through the instance; they are the fields \<open>cls_transmission\<close> and
  \<open>cls_veto\<close>, set by the constructor of each class to the value the class
  declares (the float literals \<^verbatim>\<open>0.0\<close> and \<^verbatim>\<open>0.6\<close> are read as the decimals
  they write). \<^verbatim>\<open>mps\<close> is \<^verbatim>\<open>None\<close> or an MPS object.
\<close>

record Valve =
  name :: string
  z :: real
  beamline :: string
  status :: int
  mps :: "MPS option"
  subs :: "(string \<times> callback) list"
  cls_transmission :: real
  cls_veto :: bool

definition SUB_DEV_CH :: string where
  "SUB_DEV_CH = ''device_state_changed''"

definition Valve_default_sub :: string where
  "Valve_default_sub = SUB_DEV_CH"

definition Valve_init :: "string \<Rightarrow> real \<Rightarrow> string \<Rightarrow> Valve" where
  "Valve_init nm pos bl =
     \<lparr>name = nm, z = pos, beamline = bl, status = Status_removed,
      mps = Some MPS_init, subs = [], cls_transmission = 0, cls_veto = False\<rparr>"

text \<open>\<^verbatim>\<open>class IPIMB(Valve): _transmission = 0.6\<close>\<close>

definition IPIMB_init :: "string \<Rightarrow> real \<Rightarrow> string \<Rightarrow> Valve" where
  "IPIMB_init nm pos bl = (Valve_init nm pos bl)\<lparr>cls_transmission := 6 / 10\<rparr>"

text \<open>\<^verbatim>\<open>class Stopper(Valve): _veto = True\<close>\<close>

definition Stopper_init :: "string \<Rightarrow> real \<Rightarrow> string \<Rightarrow> Valve" where
  "Stopper_init nm pos bl = (Valve_init nm pos bl)\<lparr>cls_veto := True\<rparr>"

text \<open>The properties \<^verbatim>\<open>transmission\<close>, \<^verbatim>\<open>inserted\<close> and \<^verbatim>\<open>removed\<close>.\<close>

definition transmission :: "'a Valve_scheme \<Rightarrow> real" where
  "transmission d = cls_transmission d"

definition inserted :: "'a Valve_scheme \<Rightarrow> bool" where
  "inserted d = (status d = Status_inserted)"

definition removed :: "'a Valve_scheme \<Rightarrow> bool" where
  "removed d = (status d = Status_removed)"

text \<open>
  \<^verbatim>\<open>insert(self, timeout=None, finished_cb=None)\<close>: set the status, run the
  subscriptions of the device, run those of the MPS when \<^verbatim>\<open>self.mps\<close> is true
  (an MPS object is; \<^verbatim>\<open>None\<close> is not), return a finished status object. Neither
  argument is read by the body. The result is the device after the call, the
  deliveries in the order they happened, and the returned object.
\<close>

definition insert_dev ::
  "'a Valve_scheme \<Rightarrow> real option \<Rightarrow> callback option
     \<Rightarrow> 'a Valve_scheme \<times> delivery list \<times> DeviceStatus" where
  "insert_dev d timeout finished_cb =
     (let d1 = d\<lparr>status := Status_inserted\<rparr>;
          out1 = run_subs (subs d1) (status d1) Valve_default_sub;
          out2 = (case mps d1 of
                    None \<Rightarrow> []
                  | Some m \<Rightarrow> run_subs (mps_subs m) (status d1) MPS_default_sub)
      in (d1, out1 @ out2, \<lparr>st_done = True, st_success = True\<rparr>))"

definition remove_dev ::
  "'a Valve_scheme \<Rightarrow> real option \<Rightarrow> callback option
     \<Rightarrow> 'a Valve_scheme \<times> delivery list \<times> DeviceStatus" where
  "remove_dev d timeout finished_cb =
     (let d1 = d\<lparr>status := Status_removed\<rparr>;
          out1 = run_subs (subs d1) (status d1) Valve_default_sub;
          out2 = (case mps d1 of
                    None \<Rightarrow> []
                  | Some m \<Rightarrow> run_subs (mps_subs m) (status d1) MPS_default_sub)
      in (d1, out1 @ out2, \<lparr>st_done = True, st_success = True\<rparr>))"

text \<open>
  The MPS properties, on the device \<^verbatim>\<open>self.device\<close>:
  \<^verbatim>\<open>veto_capable = self.device._veto\<close> and
  \<^verbatim>\<open>faulted = self.device.inserted and not self.veto_capable\<close>.
\<close>

definition veto_capable :: "'a Valve_scheme \<Rightarrow> bool" where
  "veto_capable d = cls_veto d"

definition faulted :: "'a Valve_scheme \<Rightarrow> bool" where
  "faulted d = (inserted d \<and> \<not> veto_capable d)"

subsection \<open>Crystal\<close>

text \<open>
  \<^verbatim>\<open>class Crystal(Valve)\<close>: the constructor runs the one of \<^verbatim>\<open>Valve\<close>, then sets
  \<^verbatim>\<open>branches = [self.beamline, branch]\<close> and \<^verbatim>\<open>mps = None\<close>. A Crystal is a
  Valve with one more field, so every Valve method applies to it.
\<close>

record Crystal = Valve +
  branches :: "string list"

definition Crystal_init :: "string \<Rightarrow> real \<Rightarrow> string \<Rightarrow> string \<Rightarrow> Crystal" where
  "Crystal_init nm pos bl branch =
     (let v = Valve_init nm pos bl;
          c = Valve.extend v (Crystal.fields [beamline v, branch])
      in c\<lparr>mps := None\<rparr>)"

text \<open>
  The errors of the Python runtime that the modelled expressions can raise:
  indexing a list out of range, and reading an attribute of \<^verbatim>\<open>None\<close>.
\<close>

datatype py_error = IndexError | AttributeError

text \<open>
  \<^verbatim>\<open>Crystal.destination\<close>: \<^verbatim>\<open>[self.branches[1]]\<close> when inserted,
  \<^verbatim>\<open>[self.beamline]\<close> when removed, \<^verbatim>\<open>self.branches\<close> otherwise.
  \<^verbatim>\<open>self.branches[1]\<close> raises when the list has fewer than two entries.
\<close>

definition destination :: "Crystal \<Rightarrow> py_error + string list" where
  "destination c =
     (if inserted c then
        (case branches c of
           b0 # b1 # rest \<Rightarrow> Inr [b1]
         | _ \<Rightarrow> Inl IndexError)
      else if removed c then Inr [beamline c]
      else Inr (branches c))"

text \<open>
  The expression \<^verbatim>\<open>d.mps.faulted\<close>, by which a client reads the fault state of a
  device: it raises when \<^verbatim>\<open>d.mps\<close> is \<^verbatim>\<open>None\<close>.
\<close>

definition mps_faulted :: "'a Valve_scheme \<Rightarrow> py_error + bool" where
  "mps_faulted d = (case mps d of None \<Rightarrow> Inl AttributeError | Some m \<Rightarrow> Inr (faulted d))"

subsection \<open>Sequences of calls\<close>

text \<open>
  A client's calls on one device: each is \<^verbatim>\<open>insert\<close> or \<^verbatim>\<open>remove\<close> with its two
  arguments. \<open>run_calls\<close> makes the calls in order and returns the device.
\<close>

datatype call = Insert "real option" "callback option" | Remove "real option" "callback option"

fun perform :: "call \<Rightarrow> 'a Valve_scheme \<Rightarrow> 'a Valve_scheme \<times> delivery list \<times> DeviceStatus" where
  "perform (Insert timeout finished_cb) d = insert_dev d timeout finished_cb"
| "perform (Remove timeout finished_cb) d = remove_dev d timeout finished_cb"

fun run_calls :: "'a Valve_scheme \<Rightarrow> call list \<Rightarrow> 'a Valve_scheme" where
  "run_calls d [] = d"
| "run_calls d (c # cs) = run_calls (fst (perform c d)) cs"

text \<open>
  The subscribers a state change is announced to: the callbacks subscribed to the
  device's default event type, and those subscribed to the default event type of
  the device's MPS (none when the device has no MPS).
\<close>

definition device_subscribers :: "'a Valve_scheme \<Rightarrow> callback list" where
  "device_subscribers d = map snd (filter (\<lambda>s. fst s = SUB_DEV_CH) (subs d))"

definition protection_subscribers :: "'a Valve_scheme \<Rightarrow> callback list" where
  "protection_subscribers d =
     (case mps d of
        None \<Rightarrow> []
      | Some m \<Rightarrow> map snd (filter (\<lambda>s. fst s = SUB_MPS_CH) (mps_subs m)))"

definition notify :: "string \<Rightarrow> int \<Rightarrow> callback \<Rightarrow> delivery" where
  "notify ty st c = \<lparr>cb = c, sub_type = ty, seen_status = st\<rparr>"

section \<open>The beam path\<close>

text \<open>
  \<^verbatim>\<open>BeamPath\<close> is imported from the \<^verbatim>\<open>lightpath\<close> package; \<^verbatim>\<open>conftest.py\<close>
  only calls its constructor, and the module that defines it is not part of the
  sources followed here. This section models its transmission query from the
  specification (sections 3 and 4.4).
\<close>

text \<open>
  Modelled from the spec: the members of a path, "Devices (and BranchingDevices)".
  A path holds Valves (IPIMBs and Stoppers among them) and Crystals, as the fixtures
  build them.
\<close>

datatype element = Plain Valve | Branching Crystal

text \<open>
  Modelled from the spec: the Device attributes of a member. A Crystal is read as
  the Valve it extends.
\<close>

fun base :: "element \<Rightarrow> Valve" where
  "base (Plain v) = v"
| "base (Branching c) = Valve.truncate c"

text \<open>
  Modelled from the spec: \<^verbatim>\<open>position\<close>, the "real-valued coordinate along the beam
  axis" of a device; the simulated devices keep it in \<^verbatim>\<open>z\<close>.
\<close>

definition position :: "element \<Rightarrow> real" where
  "position e = z (base e)"

text \<open>
  Modelled from the spec: \<^verbatim>\<open>BeamPath\<close>, "an ordered sequence of Devices (and
  BranchingDevices) sharing one beamline identifier, ordered ascending by position",
  with the beamline it is declared for (the \<^verbatim>\<open>name\<close> argument of the fixtures).
\<close>

record BeamPath =
  path_name :: string
  devices :: "element list"

text \<open>
  Modelled from the spec: \<^verbatim>\<open>transmission_at(position)\<close>, the "product of
  device.transmission for every device strictly upstream of position (lower
  position value) that is NOT fully Removed", in which "Unknown devices contribute a
  transmission of 0". The loop walks the devices of the path with the running
  product: a device at or beyond the point, or a removed one, leaves it as it is; an
  inserted one multiplies it by the device's transmission, any other by 0.
\<close>

fun transmission_loop :: "real \<Rightarrow> real \<Rightarrow> element list \<Rightarrow> real" where
  "transmission_loop q acc [] = acc"
| "transmission_loop q acc (e # es) =
     (if position e < q \<and> \<not> removed (base e)
      then transmission_loop q (acc * (if inserted (base e) then transmission (base e) else 0)) es
      else transmission_loop q acc es)"

definition transmission_at :: "BeamPath \<Rightarrow> real \<Rightarrow> real" where
  "transmission_at p q = transmission_loop q 1 (devices p)"

text \<open>
  The factor of one device in the transmission, as the specification words it: "for
  devices reporting Removed, the transmission factor is 1", "for Inserted, the factor
  is device.transmission", and 0 for a device that reports neither.
\<close>

definition factor :: "element \<Rightarrow> real" where
  "factor e =
     (if removed (base e) then 1
      else if inserted (base e) then transmission (base e)
      else 0)"

section \<open>Properties of the simulated devices\<close>

lemmas status_defs = Status_inserted_def Status_removed_def Status_unknown_def

lemmas crystal_init_defs = Crystal_init_def Valve_init_def Valve.extend_def Crystal.fields_def

text \<open>Calls change the status of a device and nothing else.\<close>

lemma run_calls_status_only: "\<exists>st. run_calls d cs = d\<lparr>status := st\<rparr>"
proof (induction cs arbitrary: d)
  case Nil
  have "d = d\<lparr>status := status d\<rparr>" by simp
  then show ?case by (metis run_calls.simps(1))
next
  case (Cons c cs)
  obtain st where "run_calls (fst (perform c d)) cs = (fst (perform c d))\<lparr>status := st\<rparr>"
    using Cons.IH by blast
  then show ?case
    by (cases c) (auto simp: insert_dev_def remove_dev_def Let_def)
qed

lemma channels_differ: "SUB_DEV_CH \<noteq> SUB_MPS_CH"
  by (simp add: SUB_DEV_CH_def SUB_MPS_CH_def)

text \<open>
  C1. The protection model reports a device faulted exactly when the device is
  inserted and not veto-capable; a removed device, a device of unknown status and a
  veto-capable device are never reported faulted.
\<close>

theorem faulted_iff:
  "faulted d = (status d = Status_inserted \<and> \<not> cls_veto d)
   \<and> faulted (d\<lparr>status := Status_removed\<rparr>) = False
   \<and> faulted (d\<lparr>status := Status_unknown\<rparr>) = False
   \<and> faulted (d\<lparr>cls_veto := True\<rparr>) = False"
  by (simp add: faulted_def inserted_def veto_capable_def status_defs)

text \<open>
  C2. A branching device with primary branch \<open>p\<close> (its own beamline) and secondary
  branch \<open>s\<close> has destination \<open>[s]\<close> when inserted, \<open>[p]\<close> when removed, and
  \<open>[p, s]\<close> in any other status, the unknown one among them. The first conjunct is
  about every Crystal object with these two branches, whatever its other fields; the
  second says that the constructor builds such an object, and the third that calls
  keep the branches.
\<close>

theorem destination_by_state:
  "destination (c\<lparr>beamline := p, status := st, branches := [p, s]\<rparr>) =
     Inr (if st = Status_inserted then [s]
          else if st = Status_removed then [p]
          else [p, s])
   \<and> map_sum id set (destination (c\<lparr>beamline := p, status := Status_unknown, branches := [p, s]\<rparr>))
       = Inr {p, s}
   \<and> Crystal_init nm pos p s
       = (Crystal_init nm pos p s)\<lparr>beamline := p, status := Status_removed, branches := [p, s]\<rparr>
   \<and> run_calls (Crystal_init nm pos p s) cs
       = (run_calls (Crystal_init nm pos p s) cs)
           \<lparr>beamline := p, status := status (run_calls (Crystal_init nm pos p s) cs),
            branches := [p, s]\<rparr>"
proof -
  obtain st' where "run_calls (Crystal_init nm pos p s) cs = (Crystal_init nm pos p s)\<lparr>status := st'\<rparr>"
    using run_calls_status_only by blast
  then show ?thesis
    by (simp add: destination_def inserted_def removed_def status_defs crystal_init_defs)
qed

text \<open>
  C5. \<^verbatim>\<open>insert\<close> on a device that is inserted leaves the device as it was, inserted,
  and returns a finished, successful status object; so does \<^verbatim>\<open>remove\<close> on a device
  that is removed.
\<close>

theorem insert_remove_idempotent:
  assumes "inserted d" and "removed e"
  shows "fst (insert_dev d t f) = d
     \<and> status (fst (insert_dev d t f)) = Status_inserted
     \<and> snd (snd (insert_dev d t f)) = \<lparr>st_done = True, st_success = True\<rparr>
     \<and> fst (remove_dev e t f) = e
     \<and> status (fst (remove_dev e t f)) = Status_removed
     \<and> snd (snd (remove_dev e t f)) = \<lparr>st_done = True, st_success = True\<rparr>"
  using assms by (simp add: insert_dev_def remove_dev_def inserted_def removed_def Let_def)

theorem insert_remove_idempotent_witness:
  "inserted ((Valve_init ''valve'' 40 ''TST'')\<lparr>status := Status_inserted\<rparr>)
   \<and> removed (Valve_init ''valve'' 40 ''TST'')
   \<and> fst (insert_dev ((Valve_init ''valve'' 40 ''TST'')\<lparr>status := Status_inserted\<rparr>) None None)
       = (Valve_init ''valve'' 40 ''TST'')\<lparr>status := Status_inserted\<rparr>
   \<and> snd (snd (insert_dev ((Valve_init ''valve'' 40 ''TST'')\<lparr>status := Status_inserted\<rparr>) None None))
       = \<lparr>st_done = True, st_success = True\<rparr>
   \<and> fst (remove_dev (Valve_init ''valve'' 40 ''TST'') None None) = Valve_init ''valve'' 40 ''TST''
   \<and> snd (snd (remove_dev (Valve_init ''valve'' 40 ''TST'') None None))
       = \<lparr>st_done = True, st_success = True\<rparr>"
proof -
  have i: "inserted ((Valve_init ''valve'' 40 ''TST'')\<lparr>status := Status_inserted\<rparr>)"
    by (simp add: inserted_def)
  have r: "removed (Valve_init ''valve'' 40 ''TST'')"
    by (simp add: removed_def Valve_init_def)
  show ?thesis
    using i r insert_remove_idempotent [OF i r, of None None] by simp
qed

text \<open>
  C6. Whatever the device and its status before the call, \<^verbatim>\<open>insert\<close> sets the status
  to inserted and then notifies the subscribers of the device, and after them the
  subscribers of its MPS; every one of them sees the device inserted already.
  \<^verbatim>\<open>remove\<close> does the same with the removed status.
\<close>

theorem insert_remove_notify:
  "insert_dev d t f =
     (d\<lparr>status := Status_inserted\<rparr>,
      map (notify SUB_DEV_CH Status_inserted) (device_subscribers d)
        @ map (notify SUB_MPS_CH Status_inserted) (protection_subscribers d),
      \<lparr>st_done = True, st_success = True\<rparr>)
   \<and> remove_dev d t f =
     (d\<lparr>status := Status_removed\<rparr>,
      map (notify SUB_DEV_CH Status_removed) (device_subscribers d)
        @ map (notify SUB_MPS_CH Status_removed) (protection_subscribers d),
      \<lparr>st_done = True, st_success = True\<rparr>)"
  by (simp add: insert_dev_def remove_dev_def Let_def run_subs_def device_subscribers_def
      protection_subscribers_def notify_def Valve_default_sub_def MPS_default_sub_def comp_def
      split: option.split)

text \<open>
  C7. After any sequence of \<^verbatim>\<open>insert\<close> and \<^verbatim>\<open>remove\<close> calls the transmission, the
  position and the beamline of a device are what they were before; the device differs
  from the one before the calls in its status at most.
\<close>

theorem calls_frame:
  "transmission (run_calls d cs) = transmission d
   \<and> z (run_calls d cs) = z d
   \<and> beamline (run_calls d cs) = beamline d
   \<and> run_calls d cs = d\<lparr>status := status (run_calls d cs)\<rparr>"
proof -
  obtain st where "run_calls d cs = d\<lparr>status := st\<rparr>"
    using run_calls_status_only by blast
  then show ?thesis by (simp add: transmission_def)
qed

text \<open>
  C8. A Crystal is built with no MPS and calls give it none. On a device with no MPS,
  \<^verbatim>\<open>insert\<close> and \<^verbatim>\<open>remove\<close> notify the subscribers of the device only, no delivery
  is on the MPS event type, the call returns its finished, successful status object,
  and reading the fault state through the MPS never gives true.
\<close>

theorem crystal_device_level_only:
  assumes "mps c = None"
  shows "mps (Crystal_init nm pos bl br) = None
     \<and> mps (run_calls c cs) = None
     \<and> fst (snd (insert_dev c t f)) = map (notify SUB_DEV_CH Status_inserted) (device_subscribers c)
     \<and> fst (snd (remove_dev c t f)) = map (notify SUB_DEV_CH Status_removed) (device_subscribers c)
     \<and> filter (\<lambda>e. sub_type e = SUB_MPS_CH) (fst (snd (insert_dev c t f))) = []
     \<and> filter (\<lambda>e. sub_type e = SUB_MPS_CH) (fst (snd (remove_dev c t f))) = []
     \<and> snd (snd (insert_dev c t f)) = \<lparr>st_done = True, st_success = True\<rparr>
     \<and> snd (snd (remove_dev c t f)) = \<lparr>st_done = True, st_success = True\<rparr>
     \<and> mps_faulted (run_calls c cs) = Inl AttributeError
     \<and> mps_faulted (run_calls c cs) \<noteq> Inr True"
proof -
  obtain st where st: "run_calls c cs = c\<lparr>status := st\<rparr>"
    using run_calls_status_only by blast
  show ?thesis
    using assms st channels_differ
    by (simp add: insert_dev_def remove_dev_def Let_def run_subs_def device_subscribers_def
        notify_def Valve_default_sub_def comp_def mps_faulted_def crystal_init_defs
        filter_empty_conv)
qed

theorem crystal_device_level_only_witness:
  "mps ((Crystal_init ''four'' 16 ''TST'' ''SIM'')\<lparr>subs := [(SUB_DEV_CH, 1), (SUB_MPS_CH, 2)]\<rparr>) = None
   \<and> fst (snd (insert_dev ((Crystal_init ''four'' 16 ''TST'' ''SIM'')\<lparr>subs := [(SUB_DEV_CH, 1), (SUB_MPS_CH, 2)]\<rparr>) None None))
       = [\<lparr>cb = 1, sub_type = SUB_DEV_CH, seen_status = Status_inserted\<rparr>]
   \<and> snd (snd (insert_dev ((Crystal_init ''four'' 16 ''TST'' ''SIM'')\<lparr>subs := [(SUB_DEV_CH, 1), (SUB_MPS_CH, 2)]\<rparr>) None None))
       = \<lparr>st_done = True, st_success = True\<rparr>
   \<and> mps_faulted (run_calls ((Crystal_init ''four'' 16 ''TST'' ''SIM'')\<lparr>subs := [(SUB_DEV_CH, 1), (SUB_MPS_CH, 2)]\<rparr>)
         [Insert None None])
       = Inl AttributeError"
proof -
  have h: "mps ((Crystal_init ''four'' 16 ''TST'' ''SIM'')\<lparr>subs := [(SUB_DEV_CH, 1), (SUB_MPS_CH, 2)]\<rparr>) = None"
    by (simp add: crystal_init_defs)
  show ?thesis
    using h crystal_device_level_only [OF h, of _ _ _ _ "[Insert None None]" None None]
      channels_differ
    by (simp add: device_subscribers_def notify_def)
qed

text \<open>
  C9. No device is inserted and removed at once, in the unknown status it is neither,
  and each of the four constructors leaves the new device removed.
\<close>

theorem inserted_removed_exclusive:
  "\<not> (inserted d \<and> removed d)
   \<and> \<not> inserted (d\<lparr>status := Status_unknown\<rparr>)
   \<and> \<not> removed (d\<lparr>status := Status_unknown\<rparr>)
   \<and> status (Valve_init nm pos bl) = Status_removed
   \<and> status (IPIMB_init nm pos bl) = Status_removed
   \<and> status (Stopper_init nm pos bl) = Status_removed
   \<and> status (Crystal_init nm pos bl br) = Status_removed"
  by (simp add: inserted_def removed_def status_defs IPIMB_init_def Stopper_init_def
      crystal_init_defs)

text \<open>
  C10. \<^verbatim>\<open>insert\<close> and \<^verbatim>\<open>remove\<close> always return, with a status object that is done
  and successful; the device returned is inserted (removed), and every subscriber
  notified during the call saw it so.
\<close>

theorem insert_remove_ack:
  "st_done (snd (snd (insert_dev d t f)))
   \<and> st_success (snd (snd (insert_dev d t f)))
   \<and> inserted (fst (insert_dev d t f))
   \<and> seen_status ` set (fst (snd (insert_dev d t f))) \<subseteq> {Status_inserted}
   \<and> st_done (snd (snd (remove_dev d t f)))
   \<and> st_success (snd (snd (remove_dev d t f)))
   \<and> removed (fst (remove_dev d t f))
   \<and> seen_status ` set (fst (snd (remove_dev d t f))) \<subseteq> {Status_removed}"
  by (auto simp add: insert_dev_def remove_dev_def Let_def inserted_def removed_def run_subs_def
      split: option.split)

section \<open>Properties of the beam path\<close>

lemma transmission_loop_prod:
  "transmission_loop q acc es = acc * prod_list (map factor (filter (\<lambda>e. position e < q) es))"
  by (induction es arbitrary: acc) (simp_all add: factor_def)

text \<open>
  C3. The transmission of a path at a point is the product of the factors of the
  devices of the path that lie strictly upstream of the point, where the factor of a
  device is 1 when it is removed, its transmission when it is inserted, and 0 in any
  other status, the unknown one among them.
\<close>

theorem transmission_at_product:
  "transmission_at p q = prod_list (map factor (filter (\<lambda>e. position e < q) (devices p)))
   \<and> factor e =
       (if status (base e) = Status_removed then 1
        else if status (base e) = Status_inserted then cls_transmission (base e)
        else 0)"
  by (simp add: transmission_at_def transmission_loop_prod factor_def removed_def inserted_def
      transmission_def)

end
